theory Spec2Isabelle
  imports Complex_Main
begin

section \<open>Values and errors\<close>

text \<open>
  The exceptions the Python code can raise, by their Python names. The specification's
  MissingInputError is Python's KeyError (a missing dictionary key), its
  IndexOutOfRangeError is IndexError, its ShapeMismatchError is the ValueError of a failed
  broadcast, and its DivisionByZeroError is ZeroDivisionError.
\<close>

datatype error = KeyError | IndexError | ValueError | ZeroDivisionError

text \<open>
  A numpy float64. Finite values are idealised as reals: rounding, overflow to infinity and
  the sign of zero are abstracted. The three non-finite values are kept, because numpy's
  arithmetic returns them (with a warning) where Python's own float division would raise.
\<close>

datatype npfloat = Fin real | PInf | NInf | NaN

fun is_finite :: "npfloat \<Rightarrow> bool" where
  "is_finite (Fin x) = True"
| "is_finite PInf = False"
| "is_finite NInf = False"
| "is_finite NaN = False"

text \<open>The infinity with the sign of \<open>s\<close>; the invalid operation when \<open>s\<close> is zero.\<close>

definition inf_signed :: "real \<Rightarrow> npfloat" where
  "inf_signed s = (if 0 < s then PInf else if s < 0 then NInf else NaN)"

fun np_neg :: "npfloat \<Rightarrow> npfloat" where
  "np_neg (Fin x) = Fin (- x)"
| "np_neg PInf = NInf"
| "np_neg NInf = PInf"
| "np_neg NaN = NaN"

fun np_add :: "npfloat \<Rightarrow> npfloat \<Rightarrow> npfloat" where
  "np_add (Fin x) (Fin y) = Fin (x + y)"
| "np_add (Fin x) PInf = PInf"
| "np_add (Fin x) NInf = NInf"
| "np_add PInf (Fin y) = PInf"
| "np_add PInf PInf = PInf"
| "np_add PInf NInf = NaN"
| "np_add NInf (Fin y) = NInf"
| "np_add NInf NInf = NInf"
| "np_add NInf PInf = NaN"
| "np_add NaN y = NaN"
| "np_add x NaN = NaN"

definition np_sub :: "npfloat \<Rightarrow> npfloat \<Rightarrow> npfloat" where
  "np_sub x y = np_add x (np_neg y)"

fun np_mul :: "npfloat \<Rightarrow> npfloat \<Rightarrow> npfloat" where
  "np_mul (Fin x) (Fin y) = Fin (x * y)"
| "np_mul (Fin x) PInf = inf_signed x"
| "np_mul (Fin x) NInf = inf_signed (- x)"
| "np_mul PInf (Fin y) = inf_signed y"
| "np_mul NInf (Fin y) = inf_signed (- y)"
| "np_mul PInf PInf = PInf"
| "np_mul PInf NInf = NInf"
| "np_mul NInf PInf = NInf"
| "np_mul NInf NInf = PInf"
| "np_mul NaN y = NaN"
| "np_mul x NaN = NaN"

text \<open>
  numpy's true division: a finite value over zero is an infinity (or NaN for 0/0), never
  an exception.
\<close>

fun np_div :: "npfloat \<Rightarrow> npfloat \<Rightarrow> npfloat" where
  "np_div (Fin x) (Fin y) = (if y = 0 then inf_signed x else Fin (x / y))"
| "np_div (Fin x) PInf = Fin 0"
| "np_div (Fin x) NInf = Fin 0"
| "np_div PInf (Fin y) = (if 0 \<le> y then PInf else NInf)"
| "np_div NInf (Fin y) = (if 0 \<le> y then NInf else PInf)"
| "np_div PInf PInf = NaN"
| "np_div PInf NInf = NaN"
| "np_div NInf PInf = NaN"
| "np_div NInf NInf = NaN"
| "np_div NaN y = NaN"
| "np_div x NaN = NaN"

definition np_square :: "npfloat \<Rightarrow> npfloat" where
  "np_square x = np_mul x x"

fun np_abs :: "npfloat \<Rightarrow> npfloat" where
  "np_abs (Fin x) = Fin \<bar>x\<bar>"
| "np_abs PInf = PInf"
| "np_abs NInf = PInf"
| "np_abs NaN = NaN"

fun np_sqrt :: "npfloat \<Rightarrow> npfloat" where
  "np_sqrt (Fin x) = (if x < 0 then NaN else Fin (sqrt x))"
| "np_sqrt PInf = PInf"
| "np_sqrt NInf = NaN"
| "np_sqrt NaN = NaN"

fun np_exp :: "npfloat \<Rightarrow> npfloat" where
  "np_exp (Fin x) = Fin (exp x)"
| "np_exp PInf = PInf"
| "np_exp NInf = Fin 0"
| "np_exp NaN = NaN"

text \<open>IEEE comparison: every comparison with NaN is false.\<close>

fun np_less :: "npfloat \<Rightarrow> npfloat \<Rightarrow> bool" where
  "np_less (Fin x) (Fin y) = (x < y)"
| "np_less (Fin x) PInf = True"
| "np_less NInf (Fin y) = True"
| "np_less NInf PInf = True"
| "np_less x y = False"

fun np_le :: "npfloat \<Rightarrow> npfloat \<Rightarrow> bool" where
  "np_le (Fin x) (Fin y) = (x \<le> y)"
| "np_le NaN y = False"
| "np_le x NaN = False"
| "np_le NInf y = True"
| "np_le x PInf = True"
| "np_le x y = False"

text \<open>Summation from 0, left to right (Python's \<open>sum\<close>, \<open>np.sum\<close>).\<close>

definition np_sum :: "npfloat list \<Rightarrow> npfloat" where
  "np_sum xs = foldl np_add (Fin 0) xs"

text \<open>\<open>np.mean\<close>: the sum over the count; the mean of an empty array is 0/0 = NaN.\<close>

definition np_mean :: "npfloat list \<Rightarrow> npfloat" where
  "np_mean xs = np_div (np_sum xs) (Fin (real (length xs)))"

section \<open>Arrays\<close>

text \<open>
  The vector arguments of the setters are one-dimensional numpy arrays, held here as
  lists of their elements; the influence matrix and the interaction tensor are
  two-dimensional arrays, held as lists of rows.
\<close>

text \<open>Running a list of computations in order; the first exception aborts.\<close>

fun sequence :: "(error + 'a) list \<Rightarrow> error + 'a list" where
  "sequence [] = Inr []"
| "sequence (Inl e # rs) = Inl e"
| "sequence (Inr v # rs) = (case sequence rs of Inl e \<Rightarrow> Inl e | Inr vs \<Rightarrow> Inr (v # vs))"

text \<open>
  Indexing a one-dimensional array by a Python integer: a negative index counts from
  the end, anything outside \<open>[-n, n)\<close> raises IndexError.
\<close>

definition np_index :: "'a list \<Rightarrow> int \<Rightarrow> error + 'a" where
  "np_index xs t =
     (let n = int (length xs) in
      if 0 \<le> t \<and> t < n then Inr (xs ! nat t)
      else if - n \<le> t \<and> t < 0 then Inr (xs ! nat (n + t))
      else Inl IndexError)"

text \<open>
  \<open>W[i, j]\<close> on a two-dimensional array held as its list of rows, for the non-negative
  indices the code produces.
\<close>

definition index2 :: "'a list list \<Rightarrow> nat \<Rightarrow> nat \<Rightarrow> error + 'a" where
  "index2 W i j =
     (if i < length W \<and> j < length (W ! i) then Inr (W ! i ! j) else Inl IndexError)"

text \<open>
  An elementwise binary operation on two one-dimensional arrays with numpy's
  broadcasting: equal lengths, or one operand of length 1 that is stretched; any other
  pair of shapes raises ValueError.
\<close>

definition broadcast2 ::
  "(npfloat \<Rightarrow> npfloat \<Rightarrow> npfloat) \<Rightarrow> npfloat list \<Rightarrow> npfloat list \<Rightarrow> error + npfloat list" where
  "broadcast2 f xs ys =
     (if length xs = length ys then Inr (map2 f xs ys)
      else if length xs = 1 then Inr (map (f (hd xs)) ys)
      else if length ys = 1 then Inr (map (\<lambda>x. f x (hd ys)) xs)
      else Inl ValueError)"

section \<open>The model instance\<close>

text \<open>
  \<open>self.framework_data\<close> is a dictionary with at most six keys, each written only by
  its own setter with a tuple of fixed arity: one optional field per key, \<open>None\<close> when the
  key is absent.
\<close>

record frameworks =
  pestel :: "(string list \<times> npfloat list \<times> npfloat list \<times> npfloat list) option"
  five_forces :: "(npfloat list \<times> npfloat list list) option"
  swot :: "(npfloat list \<times> npfloat list \<times> npfloat list list) option"
  bcg :: "(npfloat list \<times> npfloat list) option"
  ansoff :: "(npfloat list \<times> npfloat list) option"
  blue_ocean :: "(npfloat list \<times> npfloat list) option"

record isaf =
  time_horizon :: int
  temporal_coupling :: "npfloat list"
  framework_data :: frameworks
  coupling_matrices :: "string \<times> string \<rightharpoonup> npfloat"

text \<open>\<open>range(n)\<close> for a Python integer \<open>n\<close>: empty when \<open>n\<close> is not positive.\<close>

definition py_range :: "int \<Rightarrow> int list" where
  "py_range n = map int [0..<nat n]"

text \<open>\<open>__init__\<close>: \<open>np.exp(-0.1 * np.arange(time_horizon))\<close> and two empty dictionaries.\<close>

definition init :: "int \<Rightarrow> isaf" where
  "init T =
     \<lparr> time_horizon = T,
       temporal_coupling = map (\<lambda>k. np_exp (np_mul (Fin (- 0.1)) (Fin (real_of_int k)))) (py_range T),
       framework_data = \<lparr> pestel = None, five_forces = None, swot = None, bcg = None,
                          ansoff = None, blue_ocean = None \<rparr>,
       coupling_matrices = Map.empty \<rparr>"

definition set_pestel_data ::
  "isaf \<Rightarrow> string list \<Rightarrow> npfloat list \<Rightarrow> npfloat list \<Rightarrow> npfloat list \<Rightarrow> isaf" where
  "set_pestel_data self factors weights probabilities impacts =
     self\<lparr>framework_data := (framework_data self)\<lparr>pestel := Some (factors, weights, probabilities, impacts)\<rparr>\<rparr>"

definition set_five_forces_data :: "isaf \<Rightarrow> npfloat list \<Rightarrow> npfloat list list \<Rightarrow> isaf" where
  "set_five_forces_data self forces influence_matrix =
     self\<lparr>framework_data := (framework_data self)\<lparr>five_forces := Some (forces, influence_matrix)\<rparr>\<rparr>"

definition set_swot_data ::
  "isaf \<Rightarrow> npfloat list \<Rightarrow> npfloat list \<Rightarrow> npfloat list list \<Rightarrow> isaf" where
  "set_swot_data self internal_factors external_factors interaction_tensor =
     self\<lparr>framework_data := (framework_data self)\<lparr>swot := Some (internal_factors, external_factors, interaction_tensor)\<rparr>\<rparr>"

definition set_bcg_data :: "isaf \<Rightarrow> npfloat list \<Rightarrow> npfloat list \<Rightarrow> isaf" where
  "set_bcg_data self market_share growth_rate =
     self\<lparr>framework_data := (framework_data self)\<lparr>bcg := Some (market_share, growth_rate)\<rparr>\<rparr>"

definition set_ansoff_data :: "isaf \<Rightarrow> npfloat list \<Rightarrow> npfloat list \<Rightarrow> isaf" where
  "set_ansoff_data self strategy_success strategy_risk =
     self\<lparr>framework_data := (framework_data self)\<lparr>ansoff := Some (strategy_success, strategy_risk)\<rparr>\<rparr>"

definition set_blue_ocean_data :: "isaf \<Rightarrow> npfloat list \<Rightarrow> npfloat list \<Rightarrow> isaf" where
  "set_blue_ocean_data self differentiation cost_leadership =
     self\<lparr>framework_data := (framework_data self)\<lparr>blue_ocean := Some (differentiation, cost_leadership)\<rparr>\<rparr>"

section \<open>The six operators\<close>

text \<open>
  None of the operators assigns to an attribute of \<open>self\<close>: each is a function of the
  model that returns a value or raises.
\<close>

definition pestel_term :: "npfloat list \<Rightarrow> npfloat list \<Rightarrow> npfloat list \<Rightarrow> nat \<Rightarrow> error + npfloat" where
  "pestel_term weights probabilities impacts i =
     (if i < length weights \<and> i < length probabilities \<and> i < length impacts
      then Inr (np_mul (np_mul (weights ! i) (probabilities ! i)) (impacts ! i))
      else Inl IndexError)"

definition pestel_operator :: "isaf \<Rightarrow> error + npfloat" where
  "pestel_operator self =
     (case pestel (framework_data self) of
        None \<Rightarrow> Inl KeyError
      | Some (factors, weights, probabilities, impacts) \<Rightarrow>
          (case sequence (map (pestel_term weights probabilities impacts) [0..<length factors]) of
             Inl e \<Rightarrow> Inl e
           | Inr terms \<Rightarrow> Inr (np_sum terms)))"

definition five_forces_term :: "npfloat list \<Rightarrow> npfloat list list \<Rightarrow> nat \<Rightarrow> error + npfloat" where
  "five_forces_term forces W i =
     (case sequence (map (index2 W i) (filter (\<lambda>j. j \<noteq> i) [0..<length forces])) of
        Inl e \<Rightarrow> Inl e
      | Inr row \<Rightarrow> Inr (np_mul (forces ! i) (np_sum row)))"

definition five_forces_operator :: "isaf \<Rightarrow> error + npfloat" where
  "five_forces_operator self =
     (case five_forces (framework_data self) of
        None \<Rightarrow> Inl KeyError
      | Some (forces, W) \<Rightarrow>
          (case sequence (map (five_forces_term forces W) [0..<length forces]) of
             Inl e \<Rightarrow> Inl e
           | Inr terms \<Rightarrow>
               Inr (np_sub (Fin 1) (np_div (np_sum terms) (Fin (real (length forces)))))))"

definition swot_operator :: "isaf \<Rightarrow> error + npfloat" where
  "swot_operator self =
     (case swot (framework_data self) of
        None \<Rightarrow> Inl KeyError
      | Some (internal, external, tensor) \<Rightarrow>
          Inr (np_div (np_sum (concat tensor)) (Fin (real (length internal * length external)))))"

definition bcg_operator :: "isaf \<Rightarrow> error + npfloat" where
  "bcg_operator self =
     (case bcg (framework_data self) of
        None \<Rightarrow> Inl KeyError
      | Some (market_share, growth_rate) \<Rightarrow>
          (case broadcast2 np_mul market_share growth_rate of
             Inl e \<Rightarrow> Inl e
           | Inr prods \<Rightarrow> Inr (np_mean prods)))"

definition ansoff_operator :: "isaf \<Rightarrow> error + npfloat" where
  "ansoff_operator self =
     (case ansoff (framework_data self) of
        None \<Rightarrow> Inl KeyError
      | Some (success, risk) \<Rightarrow>
          (case broadcast2 np_sub success risk of
             Inl e \<Rightarrow> Inl e
           | Inr diff \<Rightarrow> Inr (np_mean diff)))"

definition blue_ocean_operator :: "isaf \<Rightarrow> error + npfloat" where
  "blue_ocean_operator self =
     (case blue_ocean (framework_data self) of
        None \<Rightarrow> Inl KeyError
      | Some (differentiation, cost) \<Rightarrow>
          (case broadcast2 np_div differentiation cost of
             Inl e \<Rightarrow> Inl e
           | Inr quot \<Rightarrow> Inr (np_mean quot)))"

section \<open>The unified equation\<close>

text \<open>\<open>self.coupling_matrices.get(key, 0.3)\<close>\<close>

definition coupling_get :: "(string \<times> string \<rightharpoonup> npfloat) \<Rightarrow> string \<times> string \<Rightarrow> npfloat" where
  "coupling_get cm key = (case cm key of None \<Rightarrow> Fin 0.3 | Some c \<Rightarrow> c)"

definition coupling_effect ::
  "(string \<times> string \<rightharpoonup> npfloat) \<Rightarrow> npfloat \<Rightarrow> npfloat \<Rightarrow> npfloat \<Rightarrow> npfloat \<Rightarrow> npfloat \<Rightarrow> npfloat \<Rightarrow> npfloat" where
  "coupling_effect cm p f s b a bo =
     np_add (np_add (np_add (np_add
       (np_mul (np_mul (coupling_get cm (''pestel'', ''five_forces'')) p) f)
       (np_mul (np_mul (coupling_get cm (''five_forces'', ''swot'')) f) s))
       (np_mul (np_mul (coupling_get cm (''swot'', ''bcg'')) s) b))
       (np_mul (np_mul (coupling_get cm (''bcg'', ''ansoff'')) b) a))
       (np_mul (np_mul (coupling_get cm (''ansoff'', ''blue_ocean'')) a) bo)"

definition strategic_state ::
  "(string \<times> string \<rightharpoonup> npfloat) \<Rightarrow> npfloat \<Rightarrow> npfloat \<Rightarrow> npfloat \<Rightarrow> npfloat \<Rightarrow> npfloat \<Rightarrow> npfloat \<Rightarrow> npfloat" where
  "strategic_state cm p f s b a bo =
     np_add (np_add (np_add (np_add (np_add (np_add p f) s) b) a) bo)
            (coupling_effect cm p f s b a bo)"

text \<open>
  The six operators run first, in the order of the source; the decay vector is indexed
  last, so an operator's exception wins over the IndexError.
\<close>

definition unified_hyperfunctional_equation :: "isaf \<Rightarrow> int \<Rightarrow> error + npfloat" where
  "unified_hyperfunctional_equation self t =
     (case pestel_operator self of Inl e \<Rightarrow> Inl e | Inr p \<Rightarrow>
     (case five_forces_operator self of Inl e \<Rightarrow> Inl e | Inr f \<Rightarrow>
     (case swot_operator self of Inl e \<Rightarrow> Inl e | Inr s \<Rightarrow>
     (case bcg_operator self of Inl e \<Rightarrow> Inl e | Inr b \<Rightarrow>
     (case ansoff_operator self of Inl e \<Rightarrow> Inl e | Inr a \<Rightarrow>
     (case blue_ocean_operator self of Inl e \<Rightarrow> Inl e | Inr bo \<Rightarrow>
     (case np_index (temporal_coupling self) t of Inl e \<Rightarrow> Inl e | Inr d \<Rightarrow>
        Inr (np_mul (strategic_state (coupling_matrices self) p f s b a bo) d))))))))"

section \<open>Optimizer objective and validator\<close>

text \<open>
  The closure \<open>objective\<close> of \<open>optimize_strategy\<close>. The right-hand side of its
  assignment reads \<open>self.framework_data['five_forces'][1]\<close> first (KeyError when the key
  is absent, nothing stored); the assignment then replaces the stored pair, and stays in
  place when the evaluation of the equation raises afterwards.
\<close>

definition objective :: "isaf \<Rightarrow> npfloat list \<Rightarrow> (error + npfloat) \<times> isaf" where
  "objective self decisions =
     (case five_forces (framework_data self) of
        None \<Rightarrow> (Inl KeyError, self)
      | Some (forces, W) \<Rightarrow>
          (let self' = self\<lparr>framework_data := (framework_data self)\<lparr>five_forces := Some (decisions, W)\<rparr>\<rparr>
           in (case sequence (map (unified_hyperfunctional_equation self') (py_range (time_horizon self'))) of
                 Inl e \<Rightarrow> (Inl e, self')
               | Inr vals \<Rightarrow> (Inr (np_neg (np_sum vals)), self'))))"

text \<open>
  \<open>optimize_strategy\<close>. The solver \<open>scipy.optimize.minimize\<close> is not part of the
  repository; it is the parameter \<open>minimize\<close>, called with the objective, the start
  vector, the bounds and the model the objective works on, and returning its result
  object (or raising) together with the model as the evaluations left it.
\<close>

record opt_result =
  result_x :: "npfloat list"
  result_fun :: npfloat

type_synonym minimizer =
  "(isaf \<Rightarrow> npfloat list \<Rightarrow> (error + npfloat) \<times> isaf) \<Rightarrow> npfloat list
     \<Rightarrow> (npfloat \<times> npfloat) list \<Rightarrow> isaf \<Rightarrow> (error + opt_result) \<times> isaf"

definition optimize_strategy :: "minimizer \<Rightarrow> isaf \<Rightarrow> (error + npfloat list \<times> npfloat) \<times> isaf" where
  "optimize_strategy minimize self =
     (case five_forces (framework_data self) of
        None \<Rightarrow> (Inl KeyError, self)
      | Some (forces, W) \<Rightarrow>
          (let initial_guess = map (\<lambda>one. np_mul one (Fin 0.5)) (replicate (length forces) (Fin 1));
               bounds = replicate (length initial_guess) (Fin 0, Fin 1)
           in (case minimize objective initial_guess bounds self of
                 (Inl e, self') \<Rightarrow> (Inl e, self')
               | (Inr result, self') \<Rightarrow>
                   (Inr (result_x result, np_neg (result_fun result)), self'))))"

text \<open>
  What is taken from the solver: its result lies within the bounds it was given, and the
  value it reports is the objective at the vector it returns.
\<close>

definition in_bounds :: "(npfloat \<times> npfloat) list \<Rightarrow> npfloat list \<Rightarrow> bool" where
  "in_bounds bounds xs \<longleftrightarrow> list_all2 (\<lambda>(lo, hi) v. np_le lo v \<and> np_le v hi) bounds xs"

definition honours_bounds :: "minimizer \<Rightarrow> bool" where
  "honours_bounds minimize \<longleftrightarrow>
     (\<forall>x0 bounds s res s'. minimize objective x0 bounds s = (Inr res, s')
         \<longrightarrow> in_bounds bounds (result_x res))"

definition reports_objective :: "minimizer \<Rightarrow> bool" where
  "reports_objective minimize \<longleftrightarrow>
     (\<forall>x0 bounds s res s'. minimize objective x0 bounds s = (Inr res, s')
         \<longrightarrow> fst (objective s (result_x res)) = Inr (result_fun res))"

text \<open>
  A solver that stops at once, for the worked example: it rejects bounds that are
  malformed, moves the start vector into the box and evaluates the objective there.
\<close>

definition clip :: "npfloat \<times> npfloat \<Rightarrow> npfloat \<Rightarrow> npfloat" where
  "clip b v = (if np_le (fst b) v \<and> np_le v (snd b) then v else fst b)"

definition start_only :: minimizer where
  "start_only obj x0 bounds s =
     (if length bounds = length x0 \<and> list_all (\<lambda>(lo, hi). np_le lo hi) bounds
      then (case obj s (map2 clip bounds x0) of
              (Inl e, s') \<Rightarrow> (Inl e, s')
            | (Inr v, s') \<Rightarrow> (Inr \<lparr> result_x = map2 clip bounds x0, result_fun = v \<rparr>, s'))
      else (Inl ValueError, s))"

text \<open>
  The validator. Its claims turn on whether a computed sum is exactly zero, which the
  rounding of float64 decides, so its arithmetic carries that rounding as the parameter
  \<open>rnd\<close>: the map from the exact real result of an operation to the float64 returned
  (the nearest representable value, zero on underflow, an infinity on overflow).
  Non-finite results are not rounded. Exact arithmetic is \<open>rnd = Fin\<close>. Sums are taken
  from 0, left to right.
\<close>

definition rounded :: "(real \<Rightarrow> npfloat) \<Rightarrow> npfloat \<Rightarrow> npfloat" where
  "rounded rnd v = (case v of Fin r \<Rightarrow> rnd r | PInf \<Rightarrow> PInf | NInf \<Rightarrow> NInf | NaN \<Rightarrow> NaN)"

definition fl_sub :: "(real \<Rightarrow> npfloat) \<Rightarrow> npfloat \<Rightarrow> npfloat \<Rightarrow> npfloat" where
  "fl_sub rnd a b = rounded rnd (np_sub a b)"

definition fl_square :: "(real \<Rightarrow> npfloat) \<Rightarrow> npfloat \<Rightarrow> npfloat" where
  "fl_square rnd d = rounded rnd (np_square d)"

definition fl_div :: "(real \<Rightarrow> npfloat) \<Rightarrow> npfloat \<Rightarrow> npfloat \<Rightarrow> npfloat" where
  "fl_div rnd a b = rounded rnd (np_div a b)"

definition fl_sqrt :: "(real \<Rightarrow> npfloat) \<Rightarrow> npfloat \<Rightarrow> npfloat" where
  "fl_sqrt rnd a = rounded rnd (np_sqrt a)"

definition fl_sum :: "(real \<Rightarrow> npfloat) \<Rightarrow> npfloat list \<Rightarrow> npfloat" where
  "fl_sum rnd xs = foldl (\<lambda>acc v. rounded rnd (np_add acc v)) (Fin 0) xs"

definition fl_mean :: "(real \<Rightarrow> npfloat) \<Rightarrow> npfloat list \<Rightarrow> npfloat" where
  "fl_mean rnd xs = fl_div rnd (fl_sum rnd xs) (Fin (real (length xs)))"

text \<open>\<open>np.sum((actual_outcomes - np.mean(actual_outcomes))**2)\<close>, the denominator of R_squared.\<close>

definition total_variance :: "(real \<Rightarrow> npfloat) \<Rightarrow> npfloat list \<Rightarrow> npfloat" where
  "total_variance rnd actual_outcomes =
     fl_sum rnd (map (\<lambda>a. fl_square rnd (fl_sub rnd a (fl_mean rnd actual_outcomes)))
                     actual_outcomes)"

record metrics =
  RMSE :: npfloat
  MAE :: npfloat
  R_squared :: npfloat

definition validate_model :: "(real \<Rightarrow> npfloat) \<Rightarrow> isaf \<Rightarrow> npfloat list \<Rightarrow> error + metrics" where
  "validate_model rnd self actual_outcomes =
     (case sequence (map (unified_hyperfunctional_equation self) (py_range (time_horizon self))) of
        Inl e \<Rightarrow> Inl e
      | Inr predicted_outcomes \<Rightarrow>
          (case broadcast2 (fl_sub rnd) actual_outcomes predicted_outcomes of
             Inl e \<Rightarrow> Inl e
           | Inr diff \<Rightarrow>
               Inr \<lparr> RMSE = fl_sqrt rnd (fl_mean rnd (map (fl_square rnd) diff)),
                     MAE = fl_mean rnd (map np_abs diff),
                     R_squared = fl_sub rnd (Fin 1)
                       (fl_div rnd (fl_sum rnd (map (fl_square rnd) diff))
                                   (total_variance rnd actual_outcomes)) \<rparr>))"

section \<open>Method calls and the worked scenario\<close>

datatype framework = PESTEL | FIVE_FORCES | SWOT | BCG | ANSOFF | BLUE_OCEAN

fun operator :: "framework \<Rightarrow> isaf \<Rightarrow> error + npfloat" where
  "operator PESTEL = pestel_operator"
| "operator FIVE_FORCES = five_forces_operator"
| "operator SWOT = swot_operator"
| "operator BCG = bcg_operator"
| "operator ANSOFF = ansoff_operator"
| "operator BLUE_OCEAN = blue_ocean_operator"

text \<open>
  An operator called as a method: what it returns or raises, and the model afterwards.
  The operators assign no attribute of \<open>self\<close>, so the model comes back as it was.
\<close>

definition call_operator :: "framework \<Rightarrow> isaf \<Rightarrow> (error + npfloat) \<times> isaf" where
  "call_operator fw self = (operator fw self, self)"

fun stored :: "framework \<Rightarrow> isaf \<Rightarrow> bool" where
  "stored PESTEL self = (pestel (framework_data self) \<noteq> None)"
| "stored FIVE_FORCES self = (five_forces (framework_data self) \<noteq> None)"
| "stored SWOT self = (swot (framework_data self) \<noteq> None)"
| "stored BCG self = (bcg (framework_data self) \<noteq> None)"
| "stored ANSOFF self = (ansoff (framework_data self) \<noteq> None)"
| "stored BLUE_OCEAN self = (blue_ocean (framework_data self) \<noteq> None)"

text \<open>
  The calls that change a model: the six setters, and an evaluation of the optimizer's
  objective. \<open>sets\<close> names the framework whose \<open>set_*\<close> method a call is.
\<close>

datatype method_call =
    Set_pestel_data "string list" "npfloat list" "npfloat list" "npfloat list"
  | Set_five_forces_data "npfloat list" "npfloat list list"
  | Set_swot_data "npfloat list" "npfloat list" "npfloat list list"
  | Set_bcg_data "npfloat list" "npfloat list"
  | Set_ansoff_data "npfloat list" "npfloat list"
  | Set_blue_ocean_data "npfloat list" "npfloat list"
  | Objective "npfloat list"

fun apply_call :: "isaf \<Rightarrow> method_call \<Rightarrow> isaf" where
  "apply_call self (Set_pestel_data fa w p i) = set_pestel_data self fa w p i"
| "apply_call self (Set_five_forces_data fo W) = set_five_forces_data self fo W"
| "apply_call self (Set_swot_data inl ext ten) = set_swot_data self inl ext ten"
| "apply_call self (Set_bcg_data ms gr) = set_bcg_data self ms gr"
| "apply_call self (Set_ansoff_data su ri) = set_ansoff_data self su ri"
| "apply_call self (Set_blue_ocean_data di co) = set_blue_ocean_data self di co"
| "apply_call self (Objective d) = snd (objective self d)"

fun sets :: "method_call \<Rightarrow> framework option" where
  "sets (Set_pestel_data fa w p i) = Some PESTEL"
| "sets (Set_five_forces_data fo W) = Some FIVE_FORCES"
| "sets (Set_swot_data inl ext ten) = Some SWOT"
| "sets (Set_bcg_data ms gr) = Some BCG"
| "sets (Set_ansoff_data su ri) = Some ANSOFF"
| "sets (Set_blue_ocean_data di co) = Some BLUE_OCEAN"
| "sets (Objective d) = None"

text \<open>The decay vector \<open>__init__\<close> computes for a horizon, and the models that still hold it.\<close>

definition decay :: "int \<Rightarrow> npfloat list" where
  "decay T = map (\<lambda>k. np_exp (np_mul (Fin (- 0.1)) (Fin (real_of_int k)))) (py_range T)"

definition constructed :: "isaf \<Rightarrow> bool" where
  "constructed self \<longleftrightarrow> temporal_coupling self = decay (time_horizon self)"

text \<open>The end-to-end scenario of the specification, for a horizon \<open>T\<close>.\<close>

definition scenario :: "int \<Rightarrow> isaf" where
  "scenario T =
     set_blue_ocean_data
       (set_ansoff_data
          (set_bcg_data
             (set_swot_data
                (set_five_forces_data
                   (set_pestel_data (init T) [''A'', ''B'']
                      [Fin 0.6, Fin 0.4] [Fin 0.5, Fin 0.5] [Fin 10, Fin 20])
                   [Fin 0.2, Fin 0.3] [[Fin 0, Fin 1], [Fin 1, Fin 0]])
                [Fin 1, Fin 1] [Fin 1] [[Fin 2], [Fin 2]])
             [Fin 0.5] [Fin 0.2])
          [Fin 0.7] [Fin 0.1])
       [Fin 0.8] [Fin 0.4]"

section \<open>Basic facts\<close>

lemmas setters = set_pestel_data_def set_five_forces_data_def set_swot_data_def
  set_bcg_data_def set_ansoff_data_def set_blue_ocean_data_def

lemma constructed_init: "constructed (init T)"
  by (simp add: constructed_def init_def decay_def)

lemma constructed_setters:
  "constructed self \<Longrightarrow> constructed (set_pestel_data self fa w p i)"
  "constructed self \<Longrightarrow> constructed (set_five_forces_data self fo W)"
  "constructed self \<Longrightarrow> constructed (set_swot_data self inl ext ten)"
  "constructed self \<Longrightarrow> constructed (set_bcg_data self ms gr)"
  "constructed self \<Longrightarrow> constructed (set_ansoff_data self su ri)"
  "constructed self \<Longrightarrow> constructed (set_blue_ocean_data self di co)"
  by (simp_all add: constructed_def setters)

lemma objective_state:
  "snd (objective self d) =
     (case five_forces (framework_data self) of
        None \<Rightarrow> self
      | Some (forces, W) \<Rightarrow>
          self\<lparr>framework_data := (framework_data self)\<lparr>five_forces := Some (d, W)\<rparr>\<rparr>)"
  by (simp add: objective_def Let_def split: option.splits sum.splits prod.splits)

lemma constructed_objective: "constructed self \<Longrightarrow> constructed (snd (objective self d))"
  by (simp add: objective_state constructed_def split: option.splits)

lemma constructed_calls: "constructed self \<Longrightarrow> constructed (foldl apply_call self calls)"
proof (induction calls arbitrary: self)
  case Nil
  then show ?case by simp
next
  case (Cons c calls)
  have "constructed (apply_call self c)"
    using Cons.prems by (cases c) (simp_all add: constructed_setters constructed_objective)
  then show ?case using Cons.IH by simp
qed

lemma length_decay: "length (decay T) = nat T"
  by (simp add: decay_def py_range_def)

lemma decay_nth: "0 \<le> t \<Longrightarrow> t < T \<Longrightarrow> decay T ! nat t = Fin (exp (- 0.1 * real_of_int t))"
  by (simp add: decay_def py_range_def)

lemma decay_index:
  assumes "constructed self" "0 \<le> t" "t < time_horizon self"
  shows "np_index (temporal_coupling self) t = Inr (Fin (exp (- 0.1 * real_of_int t)))"
  using assms by (simp add: constructed_def np_index_def length_decay decay_nth)

lemma decay_index_neg:
  assumes "constructed self" "- time_horizon self \<le> t" "t < 0"
  shows "np_index (temporal_coupling self) t =
           Inr (Fin (exp (- 0.1 * real_of_int (time_horizon self + t))))"
  using assms by (simp add: constructed_def np_index_def length_decay decay_nth)

lemma np_index_IndexError_iff:
  "np_index xs t = Inl IndexError \<longleftrightarrow> t < - int (length xs) \<or> int (length xs) \<le> t"
  by (auto simp add: np_index_def Let_def)

lemma np_mul_one: "np_mul x (Fin 1) = x"
  by (cases x) (simp_all add: inf_signed_def)

lemma np_mul_pos_assoc:
  "0 < a \<Longrightarrow> 0 < b \<Longrightarrow> np_mul (np_mul x (Fin a)) (Fin b) = np_mul x (Fin (a * b))"
  by (cases x) (simp_all add: inf_signed_def zero_less_mult_iff mult_less_0_iff)

subsection \<open>Stored input sets\<close>

lemma stored_apply_call:
  "stored fw (apply_call self c) \<longleftrightarrow> stored fw self \<or> sets c = Some fw"
  by (cases c; cases fw) (auto simp add: setters objective_state split: option.splits)

lemma stored_calls:
  "stored fw (foldl apply_call self calls) \<longleftrightarrow> stored fw self \<or> Some fw \<in> sets ` set calls"
  by (induction calls arbitrary: self) (auto simp add: stored_apply_call)

lemma not_stored_init: "\<not> stored fw (init T)"
  by (cases fw) (simp_all add: init_def)

lemma not_stored_KeyError: "\<not> stored fw self \<Longrightarrow> operator fw self = Inl KeyError"
  by (cases fw) (auto simp add: pestel_operator_def five_forces_operator_def swot_operator_def
      bcg_operator_def ansoff_operator_def blue_ocean_operator_def split: option.splits)

subsection \<open>The scenario, evaluated\<close>

lemma scenario_pestel: "pestel_operator (scenario T) = Inr (Fin 7)"
  by (simp add: scenario_def setters init_def pestel_operator_def pestel_term_def np_sum_def upt_rec)

lemma scenario_five_forces: "five_forces_operator (scenario T) = Inr (Fin 0.75)"
  by (simp add: scenario_def setters init_def five_forces_operator_def five_forces_term_def
      index2_def np_sum_def np_sub_def upt_rec)

lemma scenario_swot: "swot_operator (scenario T) = Inr (Fin 2)"
  by (simp add: scenario_def setters init_def swot_operator_def np_sum_def)

lemma scenario_bcg: "bcg_operator (scenario T) = Inr (Fin 0.1)"
  by (simp add: scenario_def setters init_def bcg_operator_def np_sum_def np_mean_def broadcast2_def)

lemma scenario_ansoff: "ansoff_operator (scenario T) = Inr (Fin 0.6)"
  by (simp add: scenario_def setters init_def ansoff_operator_def np_sum_def np_mean_def
      broadcast2_def np_sub_def)

lemma scenario_blue_ocean: "blue_ocean_operator (scenario T) = Inr (Fin 2)"
  by (simp add: scenario_def setters init_def blue_ocean_operator_def np_sum_def np_mean_def
      broadcast2_def)

lemmas scenario_operators = scenario_pestel scenario_five_forces scenario_swot scenario_bcg
  scenario_ansoff scenario_blue_ocean

lemma scenario_coupling: "coupling_matrices (scenario T) = Map.empty"
  by (simp add: scenario_def setters init_def)

lemma scenario_horizon: "time_horizon (scenario T) = T"
  by (simp add: scenario_def setters init_def)

lemma scenario_five_forces_data:
  "five_forces (framework_data (scenario T)) = Some ([Fin 0.2, Fin 0.3], [[Fin 0, Fin 1], [Fin 1, Fin 0]])"
  by (simp add: scenario_def setters init_def)

lemma constructed_scenario: "constructed (scenario T)"
  by (simp add: scenario_def constructed_setters constructed_init)

lemma scenario_decay: "temporal_coupling (scenario T) = decay T"
  using constructed_scenario [of T] by (simp add: constructed_def scenario_horizon)

lemma decay_3: "decay 3 = [Fin 1, Fin (exp (- (1 / 10))), Fin (exp (- (2 / 10)))]"
  by (simp add: decay_def py_range_def upt_rec numeral_3_eq_3)

lemma decay_1: "decay 1 = [Fin 1]"
  by (simp add: decay_def py_range_def)

lemma scenario_state:
  "strategic_state (coupling_matrices (scenario T))
     (Fin 7) (Fin 0.75) (Fin 2) (Fin 0.1) (Fin 0.6) (Fin 2) = Fin 14.913"
  by (simp add: scenario_coupling strategic_state_def coupling_effect_def coupling_get_def)

lemma scenario_unified:
  "unified_hyperfunctional_equation (scenario T) t =
     (case np_index (decay T) t of Inl e \<Rightarrow> Inl e | Inr d \<Rightarrow> Inr (np_mul (Fin 14.913) d))"
  using scenario_state [of T]
  by (simp add: unified_hyperfunctional_equation_def scenario_operators scenario_decay
      split: sum.splits)

section \<open>The unified equation\<close>

text \<open>
  Claim C1. On a model that holds the decay vector of its construction and whose six
  operators return the scores p, f, s, b, a, o, the unified equation at a step
  \<open>0 \<le> t < T\<close> returns
  \<open>(p + f + s + b + a + o + c(p,f) p f + c(f,s) f s + c(s,b) s b + c(b,a) b a + c(a,o) a o)\<close>
  times \<open>exp (-0.1 t)\<close>, each coefficient being 0.3 when its pair is absent from the
  coupling map. The sums and products are numpy's, in the order of the source. On the
  literal scenario with horizon 3 the value at step 0 is 14.913.
\<close>

theorem unified_equation_formula:
  assumes "constructed self"
    and "pestel_operator self = Inr p" and "five_forces_operator self = Inr f"
    and "swot_operator self = Inr s" and "bcg_operator self = Inr b"
    and "ansoff_operator self = Inr a" and "blue_ocean_operator self = Inr bo"
    and "0 \<le> t" and "t < time_horizon self"
  shows "unified_hyperfunctional_equation self t =
     Inr (np_mul
       (np_add (np_add (np_add (np_add (np_add (np_add p f) s) b) a) bo)
          (np_add (np_add (np_add (np_add
             (np_mul (np_mul (case coupling_matrices self (''pestel'', ''five_forces'') of
                                None \<Rightarrow> Fin 0.3 | Some c \<Rightarrow> c) p) f)
             (np_mul (np_mul (case coupling_matrices self (''five_forces'', ''swot'') of
                                None \<Rightarrow> Fin 0.3 | Some c \<Rightarrow> c) f) s))
             (np_mul (np_mul (case coupling_matrices self (''swot'', ''bcg'') of
                                None \<Rightarrow> Fin 0.3 | Some c \<Rightarrow> c) s) b))
             (np_mul (np_mul (case coupling_matrices self (''bcg'', ''ansoff'') of
                                None \<Rightarrow> Fin 0.3 | Some c \<Rightarrow> c) b) a))
             (np_mul (np_mul (case coupling_matrices self (''ansoff'', ''blue_ocean'') of
                                None \<Rightarrow> Fin 0.3 | Some c \<Rightarrow> c) a) bo)))
       (Fin (exp (- 0.1 * real_of_int t))))"
  using assms
  by (simp add: unified_hyperfunctional_equation_def decay_index strategic_state_def
      coupling_effect_def coupling_get_def)

theorem unified_equation_formula_scenario:
  "constructed (scenario 3)
   \<and> pestel_operator (scenario 3) = Inr (Fin 7)
   \<and> five_forces_operator (scenario 3) = Inr (Fin 0.75)
   \<and> swot_operator (scenario 3) = Inr (Fin 2)
   \<and> bcg_operator (scenario 3) = Inr (Fin 0.1)
   \<and> ansoff_operator (scenario 3) = Inr (Fin 0.6)
   \<and> blue_ocean_operator (scenario 3) = Inr (Fin 2)
   \<and> (0::int) \<le> 0 \<and> 0 < time_horizon (scenario 3)
   \<and> unified_hyperfunctional_equation (scenario 3) 0 = Inr (Fin 14.913)"
  using unified_equation_formula [OF constructed_scenario scenario_pestel scenario_five_forces
      scenario_swot scenario_bcg scenario_ansoff scenario_blue_ocean, of 0 3]
  by (simp add: scenario_operators scenario_coupling scenario_horizon constructed_scenario)

text \<open>
  Claim C10. On a model that holds the decay vector of its construction, the value at a step
  \<open>0 \<le> t < T\<close> is the value at step 0 times \<open>exp (-0.1 t)\<close> (the same exception when step
  0 raises), and the value at step \<open>t + 1\<close>, when that is below T, is the value at step t
  times \<open>exp (-0.1)\<close>: the step enters through the decay factor only.
\<close>

theorem unified_equation_decay_ratio:
  assumes "constructed self" and "0 \<le> t" and "t < time_horizon self"
  shows "unified_hyperfunctional_equation self t =
           (case unified_hyperfunctional_equation self 0 of
              Inl e \<Rightarrow> Inl e
            | Inr v \<Rightarrow> Inr (np_mul v (Fin (exp (- 0.1 * real_of_int t)))))
       \<and> (t + 1 < time_horizon self \<longrightarrow>
            unified_hyperfunctional_equation self (t + 1) =
              (case unified_hyperfunctional_equation self t of
                 Inl e \<Rightarrow> Inl e
               | Inr v \<Rightarrow> Inr (np_mul v (Fin (exp (- 0.1))))))"
proof -
  have d0: "np_index (temporal_coupling self) 0 = Inr (Fin 1)"
    using decay_index [of self 0] assms by simp
  have dt: "np_index (temporal_coupling self) t = Inr (Fin (exp (- 0.1 * real_of_int t)))"
    using decay_index assms by simp
  have first: "unified_hyperfunctional_equation self t =
           (case unified_hyperfunctional_equation self 0 of
              Inl e \<Rightarrow> Inl e
            | Inr v \<Rightarrow> Inr (np_mul v (Fin (exp (- 0.1 * real_of_int t)))))"
    by (simp add: unified_hyperfunctional_equation_def d0 dt np_mul_one split: sum.splits)
  have second: "unified_hyperfunctional_equation self (t + 1) =
              (case unified_hyperfunctional_equation self t of
                 Inl e \<Rightarrow> Inl e
               | Inr v \<Rightarrow> Inr (np_mul v (Fin (exp (- 0.1)))))"
    if "t + 1 < time_horizon self"
  proof -
    have ds: "np_index (temporal_coupling self) (t + 1) =
                Inr (Fin (exp (- 0.1 * real_of_int t) * exp (- 0.1)))"
      using decay_index [of self "t + 1"] assms that
      by (simp add: exp_add [symmetric] algebra_simps)
    show ?thesis
      by (simp add: unified_hyperfunctional_equation_def ds dt np_mul_pos_assoc split: sum.splits)
  qed
  show ?thesis using first second by blast
qed

theorem unified_equation_decay_ratio_witness:
  "constructed (scenario 3) \<and> (0::int) \<le> 1 \<and> 1 < time_horizon (scenario 3)
   \<and> 1 + 1 < time_horizon (scenario 3)
   \<and> unified_hyperfunctional_equation (scenario 3) 0 = Inr (Fin 14.913)
   \<and> unified_hyperfunctional_equation (scenario 3) 1 = Inr (Fin (14.913 * exp (- 0.1)))
   \<and> unified_hyperfunctional_equation (scenario 3) 2 = Inr (Fin (14.913 * exp (- 0.1) * exp (- 0.1)))"
  using unified_equation_decay_ratio [OF constructed_scenario, of 1 3]
  by (simp add: scenario_horizon constructed_scenario scenario_unified decay_3 np_index_def)

section \<open>Missing inputs\<close>

text \<open>
  Claim C5. On a model built by the constructor and any sequence of calls among which the
  \<open>set_*\<close> method of a framework never occurs, calling that framework's operator raises
  KeyError (the specification's MissingInputError) and leaves the model as it was.
\<close>

theorem operator_without_input_raises_KeyError:
  assumes "Some fw \<notin> sets ` set calls"
  shows "call_operator fw (foldl apply_call (init T) calls)
           = (Inl KeyError, foldl apply_call (init T) calls)"
  using assms by (simp add: call_operator_def not_stored_KeyError stored_calls not_stored_init)

theorem operator_without_input_raises_KeyError_witness:
  "Some PESTEL \<notin> sets ` set [Set_bcg_data [Fin 0.5] [Fin 0.2]] \<and>
   call_operator PESTEL (foldl apply_call (init 3) [Set_bcg_data [Fin 0.5] [Fin 0.2]])
     = (Inl KeyError, set_bcg_data (init 3) [Fin 0.5] [Fin 0.2])"
  using operator_without_input_raises_KeyError [of PESTEL "[Set_bcg_data [Fin 0.5] [Fin 0.2]]" 3]
  by simp

section \<open>The optimizer's objective\<close>

text \<open>
  Claim C6. The objective is evaluated only inside \<open>optimize_strategy\<close>, after the Five
  Forces input set has been read, so that set is stored. An evaluation on a candidate
  stores exactly the candidate as the forces vector and keeps the influence matrix, the
  other five input sets, the coupling map, the decay vector and the horizon, whether the
  evaluation returns or raises.
\<close>

theorem objective_overwrites_forces_only:
  assumes "five_forces (framework_data self) = Some (forces, W)"
  shows "five_forces (framework_data (snd (objective self decisions))) = Some (decisions, W)
    \<and> pestel (framework_data (snd (objective self decisions))) = pestel (framework_data self)
    \<and> swot (framework_data (snd (objective self decisions))) = swot (framework_data self)
    \<and> bcg (framework_data (snd (objective self decisions))) = bcg (framework_data self)
    \<and> ansoff (framework_data (snd (objective self decisions))) = ansoff (framework_data self)
    \<and> blue_ocean (framework_data (snd (objective self decisions))) = blue_ocean (framework_data self)
    \<and> coupling_matrices (snd (objective self decisions)) = coupling_matrices self
    \<and> temporal_coupling (snd (objective self decisions)) = temporal_coupling self
    \<and> time_horizon (snd (objective self decisions)) = time_horizon self"
  using assms by (simp add: objective_state)

theorem objective_overwrites_forces_only_witness:
  "five_forces (framework_data (scenario 3)) = Some ([Fin 0.2, Fin 0.3], [[Fin 0, Fin 1], [Fin 1, Fin 0]])
   \<and> five_forces (framework_data (snd (objective (scenario 3) [Fin 0.5, Fin 0.5])))
       = Some ([Fin 0.5, Fin 0.5], [[Fin 0, Fin 1], [Fin 1, Fin 0]])
   \<and> pestel (framework_data (snd (objective (scenario 3) [Fin 0.5, Fin 0.5])))
       = pestel (framework_data (scenario 3))"
  using objective_overwrites_forces_only [OF scenario_five_forces_data, of 3 "[Fin 0.5, Fin 0.5]"]
  by (simp add: scenario_five_forces_data)

section \<open>Steps outside the horizon\<close>

lemma operators_unified:
  assumes "pestel_operator self = Inr p" and "five_forces_operator self = Inr f"
    and "swot_operator self = Inr s" and "bcg_operator self = Inr b"
    and "ansoff_operator self = Inr a" and "blue_ocean_operator self = Inr bo"
  shows "unified_hyperfunctional_equation self t =
           (case np_index (temporal_coupling self) t of
              Inl e \<Rightarrow> Inl e
            | Inr d \<Rightarrow> Inr (np_mul (strategic_state (coupling_matrices self) p f s b a bo) d))"
  using assms by (simp add: unified_hyperfunctional_equation_def)

text \<open>
  Claim C2, as the code has it. The decay vector is a numpy array indexed by \<open>t\<close>, and a
  negative index counts from its end. On a model that holds the decay vector of its
  construction and whose six operators return values, the call raises IndexError when
  \<open>t \<ge> max(T, 0)\<close> or \<open>t < - max(T, 0)\<close>, and for \<open>-T \<le> t < 0\<close> it returns the strategic
  state times \<open>exp (-0.1 (T + t))\<close>, the value of step \<open>T + t\<close>.
\<close>

theorem unified_equation_index_error:
  assumes "constructed self"
    and "pestel_operator self = Inr p" and "five_forces_operator self = Inr f"
    and "swot_operator self = Inr s" and "bcg_operator self = Inr b"
    and "ansoff_operator self = Inr a" and "blue_ocean_operator self = Inr bo"
  shows "(t < - max 0 (time_horizon self) \<or> max 0 (time_horizon self) \<le> t \<longrightarrow>
            unified_hyperfunctional_equation self t = Inl IndexError)
       \<and> (- time_horizon self \<le> t \<and> t < 0 \<longrightarrow>
            unified_hyperfunctional_equation self t =
              Inr (np_mul (strategic_state (coupling_matrices self) p f s b a bo)
                          (Fin (exp (- 0.1 * real_of_int (time_horizon self + t))))))"
proof -
  have len: "int (length (temporal_coupling self)) = max 0 (time_horizon self)"
    using assms(1) by (simp add: constructed_def length_decay)
  have out: "np_index (temporal_coupling self) t = Inl IndexError"
    if "t < - max 0 (time_horizon self) \<or> max 0 (time_horizon self) \<le> t"
    using that len by (simp add: np_index_IndexError_iff)
  show ?thesis
    using assms(1) by (auto simp add: operators_unified [OF assms(2-7)] out decay_index_neg)
qed

theorem unified_equation_index_error_witness:
  "constructed (scenario 3)
   \<and> pestel_operator (scenario 3) = Inr (Fin 7)
   \<and> five_forces_operator (scenario 3) = Inr (Fin 0.75)
   \<and> swot_operator (scenario 3) = Inr (Fin 2)
   \<and> bcg_operator (scenario 3) = Inr (Fin 0.1)
   \<and> ansoff_operator (scenario 3) = Inr (Fin 0.6)
   \<and> blue_ocean_operator (scenario 3) = Inr (Fin 2)
   \<and> max 0 (time_horizon (scenario 3)) \<le> 3
   \<and> unified_hyperfunctional_equation (scenario 3) 3 = Inl IndexError
   \<and> - time_horizon (scenario 3) \<le> - 3 \<and> (- 3 :: int) < 0
   \<and> unified_hyperfunctional_equation (scenario 3) (- 3) = Inr (Fin 14.913)"
  using unified_equation_index_error [OF constructed_scenario scenario_pestel scenario_five_forces
      scenario_swot scenario_bcg scenario_ansoff scenario_blue_ocean, of 3 3]
    unified_equation_index_error [OF constructed_scenario scenario_pestel scenario_five_forces
      scenario_swot scenario_bcg scenario_ansoff scenario_blue_ocean, of "- 3" 3]
    scenario_state [of 3]
  by (simp add: scenario_horizon scenario_operators constructed_scenario)

text \<open>
  Claim C2 as stated fails: on the scenario with horizon 3 the step \<open>-1\<close> is outside
  \<open>[0, 3)\<close>, and the call returns the value of step 2.
\<close>

theorem unified_equation_negative_step_returns:
  "time_horizon (scenario 3) = 3 \<and> \<not> (0 \<le> (- 1 :: int)) \<and>
   unified_hyperfunctional_equation (scenario 3) (- 1) = Inr (Fin (14.913 * exp (- (2 / 10))))"
  by (simp add: scenario_horizon scenario_unified decay_3 np_index_def)

section \<open>Division by zero\<close>

lemma np_div_zero_nonfinite: "\<not> is_finite (np_div x (Fin 0))"
  by (cases x) (simp_all add: inf_signed_def)

lemma np_div_nan_nonfinite: "\<not> is_finite (np_div x NaN)"
  by (cases x) simp_all

lemma np_div_nonfinite: "\<not> is_finite x \<Longrightarrow> \<not> is_finite (np_div x (Fin y))"
  by (cases x) simp_all

lemma np_add_nonfinite: "\<not> is_finite x \<or> \<not> is_finite y \<Longrightarrow> \<not> is_finite (np_add x y)"
  by (cases x; cases y) simp_all

lemma foldl_np_add_nonfinite:
  "\<not> is_finite acc \<or> (\<exists>x\<in>set xs. \<not> is_finite x) \<Longrightarrow> \<not> is_finite (foldl np_add acc xs)"
proof (induction xs arbitrary: acc)
  case Nil
  then show ?case by simp
next
  case (Cons x xs)
  have "\<not> is_finite (np_add acc x) \<or> (\<exists>y\<in>set xs. \<not> is_finite y)"
    using Cons.prems np_add_nonfinite [of acc x] by auto
  then show ?case using Cons.IH by simp
qed

lemma np_sum_nonfinite: "x \<in> set xs \<Longrightarrow> \<not> is_finite x \<Longrightarrow> \<not> is_finite (np_sum xs)"
  unfolding np_sum_def using foldl_np_add_nonfinite by blast

lemma np_mean_nonfinite: "x \<in> set xs \<Longrightarrow> \<not> is_finite x \<Longrightarrow> \<not> is_finite (np_mean xs)"
  unfolding np_mean_def by (rule np_div_nonfinite) (rule np_sum_nonfinite)

lemma zero_cost_quotient:
  assumes "length d = length cost" and "Fin 0 \<in> set cost"
  shows "\<exists>q\<in>set (map2 np_div d cost). \<not> is_finite q"
proof -
  obtain i where i: "i < length cost" "cost ! i = Fin 0"
    using assms(2) by (auto simp add: in_set_conv_nth)
  have "map2 np_div d cost ! i = np_div (d ! i) (Fin 0)"
    using i assms(1) by simp
  moreover have "map2 np_div d cost ! i \<in> set (map2 np_div d cost)"
    using i assms(1) by (intro nth_mem) simp
  ultimately show ?thesis
    using np_div_zero_nonfinite by metis
qed

text \<open>
  Claim C3, as the code has it. Both divisions are numpy's, which return a non-finite
  value where Python's own division would raise. With both SWOT factor lists empty,
  \<open>swot_operator\<close> raises nothing and returns a non-finite value, whatever the tensor; with
  Blue Ocean vectors of equal length and a zero among the cost entries,
  \<open>blue_ocean_operator\<close> raises nothing and returns a non-finite value.
\<close>

theorem division_by_zero_returns_nonfinite:
  "(swot (framework_data self) = Some ([], [], tensor) \<longrightarrow>
      (case swot_operator self of Inl e \<Rightarrow> False | Inr v \<Rightarrow> \<not> is_finite v))
   \<and> (blue_ocean (framework_data self) = Some (d, cost) \<and> length d = length cost
        \<and> Fin 0 \<in> set cost \<longrightarrow>
      (case blue_ocean_operator self of Inl e \<Rightarrow> False | Inr v \<Rightarrow> \<not> is_finite v))"
proof (intro conjI impI)
  assume "swot (framework_data self) = Some ([], [], tensor)"
  then show "case swot_operator self of Inl e \<Rightarrow> False | Inr v \<Rightarrow> \<not> is_finite v"
    by (simp add: swot_operator_def np_div_zero_nonfinite)
next
  assume a: "blue_ocean (framework_data self) = Some (d, cost) \<and> length d = length cost
        \<and> Fin 0 \<in> set cost"
  then obtain q where "q \<in> set (map2 np_div d cost)" "\<not> is_finite q"
    using zero_cost_quotient by blast
  then have "\<not> is_finite (np_mean (map2 np_div d cost))"
    by (rule np_mean_nonfinite)
  then show "case blue_ocean_operator self of Inl e \<Rightarrow> False | Inr v \<Rightarrow> \<not> is_finite v"
    using a by (simp add: blue_ocean_operator_def broadcast2_def)
qed

theorem division_by_zero_returns_nonfinite_witness:
  "swot (framework_data (set_swot_data (init 3) [] [] [[Fin 2]])) = Some ([], [], [[Fin 2]])
   \<and> swot_operator (set_swot_data (init 3) [] [] [[Fin 2]]) = Inr PInf
   \<and> blue_ocean (framework_data (set_blue_ocean_data (init 3) [Fin 0.8, Fin 1] [Fin 0.4, Fin 0]))
       = Some ([Fin 0.8, Fin 1], [Fin 0.4, Fin 0])
   \<and> length [Fin 0.8, Fin 1] = length [Fin 0.4, Fin 0] \<and> Fin 0 \<in> set [Fin 0.4, Fin 0]
   \<and> blue_ocean_operator (set_blue_ocean_data (init 3) [Fin 0.8, Fin 1] [Fin 0.4, Fin 0]) = Inr PInf"
  using division_by_zero_returns_nonfinite [of "set_swot_data (init 3) [] [] [[Fin 2]]" "[[Fin 2]]"
      "[Fin 0.8, Fin 1]" "[Fin 0.4, Fin 0]"]
    division_by_zero_returns_nonfinite [of "set_blue_ocean_data (init 3) [Fin 0.8, Fin 1] [Fin 0.4, Fin 0]"
      "[]" "[Fin 0.8, Fin 1]" "[Fin 0.4, Fin 0]"]
  by (simp add: setters init_def swot_operator_def blue_ocean_operator_def broadcast2_def
      np_mean_def np_sum_def inf_signed_def)

text \<open>
  Claim C3 as stated fails: with both SWOT lists (and the tensor) empty the operator
  returns NaN, and with the single cost entry zero the Blue Ocean operator returns
  infinity; neither raises ZeroDivisionError.
\<close>

theorem division_by_zero_not_raised:
  "swot_operator (set_swot_data (init 3) [] [] []) = Inr NaN
   \<and> blue_ocean_operator (set_blue_ocean_data (init 3) [Fin 0.8] [Fin 0]) = Inr PInf"
  by (simp add: setters init_def swot_operator_def blue_ocean_operator_def broadcast2_def
      np_mean_def np_sum_def inf_signed_def)

section \<open>The validator\<close>

lemma sequence_length: "sequence rs = Inr vs \<Longrightarrow> length vs = length rs"
proof (induction rs arbitrary: vs)
  case Nil
  then show ?case by simp
next
  case (Cons r rs)
  then show ?case by (cases r) (auto split: sum.splits)
qed

lemma rounded_nonfinite: "\<not> is_finite v \<Longrightarrow> rounded rnd v = v"
  by (cases v) (simp_all add: rounded_def)

lemma rounded_exact: "rounded Fin v = v"
  by (cases v) (simp_all add: rounded_def)

lemma rounded_zero: "rnd 0 = Fin 0 \<Longrightarrow> rounded rnd (Fin 0) = Fin 0"
  by (simp add: rounded_def)

lemma fl_sum_zeros: "rnd 0 = Fin 0 \<Longrightarrow> fl_sum rnd (replicate n (Fin 0)) = Fin 0"
  unfolding fl_sum_def by (induction n) (simp_all add: rounded_def)

lemma fl_mean_zeros:
  "rnd 0 = Fin 0 \<Longrightarrow> 0 < n \<Longrightarrow> fl_mean rnd (replicate n (Fin 0)) = Fin 0"
  by (simp add: fl_mean_def fl_div_def fl_sum_zeros rounded_def)

lemma fl_sub_same: "rnd 0 = Fin 0 \<Longrightarrow> fl_sub rnd (Fin x) (Fin x) = Fin 0"
  by (simp add: fl_sub_def np_sub_def rounded_def)

lemma fl_square_zero: "rnd 0 = Fin 0 \<Longrightarrow> fl_square rnd (Fin 0) = Fin 0"
  by (simp add: fl_square_def np_square_def rounded_def)

lemma np_sub_nonfinite: "\<not> is_finite y \<Longrightarrow> \<not> is_finite (np_sub x y)"
  by (cases x; cases y) (simp_all add: np_sub_def)

lemma zero_variance_R_squared:
  "\<not> is_finite (fl_sub rnd (Fin 1) (fl_div rnd num (Fin 0)))"
proof -
  have q: "\<not> is_finite (np_div num (Fin 0))"
    by (rule np_div_zero_nonfinite)
  then have "fl_div rnd num (Fin 0) = np_div num (Fin 0)"
    by (simp add: fl_div_def rounded_nonfinite)
  moreover have "\<not> is_finite (np_sub (Fin 1) (np_div num (Fin 0)))"
    using q by (rule np_sub_nonfinite)
  ultimately show ?thesis
    by (simp add: fl_sub_def rounded_nonfinite)
qed

lemma constant_outcomes_variance:
  assumes "rnd 0 = Fin 0" and "fl_mean rnd (replicate n (Fin x)) = Fin x"
  shows "total_variance rnd (replicate n (Fin x)) = Fin 0"
  using assms by (simp add: total_variance_def fl_sub_same fl_square_zero fl_sum_zeros)

text \<open>
  Claim C4, as the code has it. When the predicted sequence is computed without an
  exception and the observed outcomes are one value repeated once per prediction,
  \<open>validate_model\<close> raises nothing and returns the three metrics, under every rounding.
  R_squared is non-finite whenever the total variance in its denominator computes to
  exactly 0, and it does so when the common value is finite and the computed mean of
  the outcomes is that value, as for \<open>[1, 1, 1]\<close>.
\<close>

theorem validate_model_constant_outcomes:
  assumes "sequence (map (unified_hyperfunctional_equation self) (py_range (time_horizon self)))
             = Inr predicted"
    and "actual = replicate (length predicted) c"
  shows "\<exists>r. validate_model rnd self actual = Inr r
           \<and> (total_variance rnd actual = Fin 0 \<longrightarrow> \<not> is_finite (R_squared r))
           \<and> (rnd 0 = Fin 0 \<and> is_finite c \<and> fl_mean rnd actual = c
                \<longrightarrow> total_variance rnd actual = Fin 0)"
proof -
  have ret: "validate_model rnd self actual =
      Inr \<lparr> RMSE = fl_sqrt rnd (fl_mean rnd (map (fl_square rnd) (map2 (fl_sub rnd) actual predicted))),
            MAE = fl_mean rnd (map np_abs (map2 (fl_sub rnd) actual predicted)),
            R_squared = fl_sub rnd (Fin 1)
              (fl_div rnd (fl_sum rnd (map (fl_square rnd) (map2 (fl_sub rnd) actual predicted)))
                          (total_variance rnd actual)) \<rparr>"
    using assms by (simp add: validate_model_def broadcast2_def)
  have var: "total_variance rnd actual = Fin 0"
    if h: "rnd 0 = Fin 0 \<and> is_finite c \<and> fl_mean rnd actual = c"
  proof -
    obtain x where "c = Fin x"
      using h by (cases c) auto
    then show ?thesis
      using h assms(2) constant_outcomes_variance [of rnd "length predicted" x] by simp
  qed
  show ?thesis
    unfolding ret using var by (auto simp add: zero_variance_R_squared)
qed


lemma scenario_predictions_1:
  "sequence (map (unified_hyperfunctional_equation (scenario 1)) (py_range (time_horizon (scenario 1))))
     = Inr [Fin 14.913]"
  by (simp add: scenario_horizon py_range_def scenario_unified decay_1 np_index_def)

lemma scenario_predictions_3:
  "sequence (map (unified_hyperfunctional_equation (scenario 3)) (py_range (time_horizon (scenario 3))))
     = Inr [Fin 14.913, Fin (14.913 * exp (- (1 / 10))), Fin (14.913 * exp (- (2 / 10)))]"
  by (simp add: scenario_horizon py_range_def scenario_unified decay_3 np_index_def upt_rec numeral_3_eq_3)

lemma pos_plus_squares: "0 < c \<Longrightarrow> 0 < c + x * x + y * y" for c x y :: real
  by (intro add_pos_nonneg) simp_all

lemmas exact_arithmetic = fl_sub_def fl_square_def fl_div_def fl_sqrt_def fl_sum_def fl_mean_def
  total_variance_def rounded_def np_sub_def np_square_def inf_signed_def

text \<open>
  Claim C4 as stated fails: on the scenario with horizon 3 and the observed outcomes
  \<open>[1, 1, 1]\<close> the validator returns its metrics, with R_squared equal to minus infinity.
\<close>

theorem constant_outcomes_R_squared_minus_infinity:
  "map_sum id R_squared (validate_model Fin (scenario 3) [Fin 1, Fin 1, Fin 1]) = Inr NInf"
proof -
  have "(0::real) < 193571569 / 1000000
          + (1 - 14913 * exp (- (1 / 10)) / 1000) * (1 - 14913 * exp (- (1 / 10)) / 1000)
          + (1 - 14913 * exp (- (1 / 5)) / 1000) * (1 - 14913 * exp (- (1 / 5)) / 1000)"
    by (rule pos_plus_squares) simp
  then show ?thesis
    using scenario_predictions_3
    by (simp add: validate_model_def broadcast2_def exact_arithmetic)
qed

theorem validate_model_constant_outcomes_witness:
  "sequence (map (unified_hyperfunctional_equation (scenario 3)) (py_range (time_horizon (scenario 3))))
     = Inr [Fin 14.913, Fin (14.913 * exp (- (1 / 10))), Fin (14.913 * exp (- (2 / 10)))]
   \<and> [Fin 1, Fin 1, Fin 1] = replicate (length [Fin 14.913, Fin (14.913 * exp (- (1 / 10))), Fin (14.913 * exp (- (2 / 10)))]) (Fin 1)
   \<and> Fin 0 = Fin 0 \<and> is_finite (Fin 1) \<and> fl_mean Fin [Fin 1, Fin 1, Fin 1] = Fin 1
   \<and> total_variance Fin [Fin 1, Fin 1, Fin 1] = Fin 0
   \<and> (case validate_model Fin (scenario 3) [Fin 1, Fin 1, Fin 1] of
         Inl e \<Rightarrow> False | Inr r \<Rightarrow> \<not> is_finite (R_squared r))"
proof -
  have m: "fl_mean Fin [Fin 1, Fin 1, Fin 1] = Fin 1"
    by (simp add: exact_arithmetic)
  show ?thesis
    using validate_model_constant_outcomes [OF scenario_predictions_3, of "[Fin 1, Fin 1, Fin 1]" "Fin 1" Fin]
      scenario_predictions_3 m
    by (auto simp add: numeral_3_eq_3)
qed

lemma residual_same:
  "rnd 0 = Fin 0 \<Longrightarrow> map2 (fl_sub rnd) (map Fin ps) (map Fin ps) = replicate (length ps) (Fin 0)"
  by (simp add: zip_same_conv_map o_def map_replicate_const fl_sub_same)

lemma round_trip_R_squared:
  assumes "rnd 0 = Fin 0" and "rnd 1 = Fin 1"
  shows "fl_sub rnd (Fin 1) (fl_div rnd (Fin 0) V) = (if V = Fin 0 \<or> V = NaN then NaN else Fin 1)"
  using assms by (cases V) (simp_all add: fl_sub_def fl_div_def rounded_def np_sub_def inf_signed_def)

text \<open>
  Claim C8, as the code has it. When the predicted sequence is computed without an
  exception and is finite and not empty, validating the model against its own
  predictions gives RMSE = 0 and MAE = 0 under every rounding that keeps 0 and 1, and
  R_squared = 1 unless the total variance of the predictions computes to 0 or to NaN,
  in which case R_squared is NaN.
\<close>

theorem validate_model_round_trip:
  assumes "sequence (map (unified_hyperfunctional_equation self) (py_range (time_horizon self)))
             = Inr (map Fin ps)"
    and "ps \<noteq> []" and "rnd 0 = Fin 0" and "rnd 1 = Fin 1"
  shows "validate_model rnd self (map Fin ps) =
           Inr \<lparr> RMSE = Fin 0, MAE = Fin 0,
                 R_squared = (if total_variance rnd (map Fin ps) = Fin 0
                                 \<or> total_variance rnd (map Fin ps) = NaN
                              then NaN else Fin 1) \<rparr>"
proof -
  have n: "0 < length ps"
    using assms(2) by simp
  have squares: "map (fl_square rnd) (replicate (length ps) (Fin 0)) = replicate (length ps) (Fin 0)"
    by (simp add: fl_square_zero [of rnd, OF assms(3)])
  have rmse: "fl_sqrt rnd (fl_mean rnd (map (fl_square rnd) (replicate (length ps) (Fin 0)))) = Fin 0"
    unfolding squares fl_mean_zeros [of rnd, OF assms(3) n]
    using assms(3) by (simp add: fl_sqrt_def rounded_def)
  have mae: "fl_mean rnd (map np_abs (replicate (length ps) (Fin 0))) = Fin 0"
    using fl_mean_zeros [of rnd, OF assms(3) n] by simp
  have num: "fl_sum rnd (map (fl_square rnd) (replicate (length ps) (Fin 0))) = Fin 0"
    unfolding squares by (rule fl_sum_zeros [of rnd, OF assms(3)])
  show ?thesis
    using assms(1)
    by (simp add: validate_model_def broadcast2_def residual_same [of rnd, OF assms(3)] rmse mae num
        round_trip_R_squared [of rnd, OF assms(3,4)] del: map_replicate)
qed

text \<open>
  Claim C8 as stated fails: with horizon 1 the predicted sequence of the scenario is the
  single value 14.913; against itself the total variance is zero and R_squared is
  \<open>1 - 0/0\<close>, which is NaN.
\<close>

theorem single_step_round_trip_R_squared_NaN:
  "sequence (map (unified_hyperfunctional_equation (scenario 1)) (py_range (time_horizon (scenario 1))))
     = Inr [Fin 14.913]
   \<and> validate_model Fin (scenario 1) [Fin 14.913] = Inr \<lparr> RMSE = Fin 0, MAE = Fin 0, R_squared = NaN \<rparr>"
  using scenario_predictions_1
  by (simp add: validate_model_def broadcast2_def exact_arithmetic)

lemma scenario_predictions_3_Fin:
  "sequence (map (unified_hyperfunctional_equation (scenario 3)) (py_range (time_horizon (scenario 3))))
     = Inr (map Fin [14.913, 14.913 * exp (- (1 / 10)), 14.913 * exp (- (2 / 10))])"
  using scenario_predictions_3 by simp

lemma foldl_exact_Fin:
  "foldl (\<lambda>acc v. rounded Fin (np_add acc v)) (Fin a) (map Fin zs) = Fin (a + sum_list zs)"
  by (induction zs arbitrary: a) (simp_all add: rounded_def add.assoc)

lemma fl_sum_exact_Fin: "fl_sum Fin (map Fin zs) = Fin (sum_list zs)"
  by (simp add: fl_sum_def foldl_exact_Fin)

lemma total_variance_exact:
  assumes "ps \<noteq> []"
  shows "total_variance Fin (map Fin ps)
           = Fin (sum_list (map (\<lambda>x. (x - sum_list ps / real (length ps))
                                      * (x - sum_list ps / real (length ps))) ps))"
proof -
  have mean: "fl_mean Fin (map Fin ps) = Fin (sum_list ps / real (length ps))"
    using assms by (simp add: fl_mean_def fl_sum_exact_Fin fl_div_def rounded_def)
  have "map (\<lambda>a. fl_square Fin (fl_sub Fin a (Fin m))) (map Fin ps)
          = map Fin (map (\<lambda>x. (x - m) * (x - m)) ps)" for m
    by (simp add: fl_square_def fl_sub_def rounded_def np_square_def np_sub_def)
  then show ?thesis
    unfolding total_variance_def mean by (simp only: fl_sum_exact_Fin)
qed

lemma total_variance_nonzero:
  fixes ps :: "real list"
  assumes "i < length ps" and "j < length ps" and "ps ! i \<noteq> ps ! j"
  shows "sum_list (map (\<lambda>x. (x - m) * (x - m)) ps) \<noteq> 0"
proof
  assume zero: "sum_list (map (\<lambda>x. (x - m) * (x - m)) ps) = 0"
  have "\<forall>y\<in>set (map (\<lambda>x. (x - m) * (x - m)) ps). y = 0"
    using zero by (subst (asm) sum_list_nonneg_eq_0_iff) auto
  then have "\<forall>x\<in>set ps. x = m"
    by simp
  then have "ps ! i = m" and "ps ! j = m"
    using assms(1,2) by simp_all
  then show False
    using assms(3) by simp
qed

theorem validate_model_round_trip_witness:
  "sequence (map (unified_hyperfunctional_equation (scenario 3)) (py_range (time_horizon (scenario 3))))
     = Inr (map Fin [14.913, 14.913 * exp (- (1 / 10)), 14.913 * exp (- (2 / 10))])
   \<and> [14.913, 14.913 * exp (- (1 / 10)), 14.913 * exp (- (2 / 10)) :: real] \<noteq> []
   \<and> Fin 0 = Fin 0 \<and> Fin 1 = Fin 1
   \<and> validate_model Fin (scenario 3) [Fin 14.913, Fin (14.913 * exp (- (1 / 10))), Fin (14.913 * exp (- (2 / 10)))]
       = Inr \<lparr> RMSE = Fin 0, MAE = Fin 0, R_squared = Fin 1 \<rparr>"
proof -
  let ?ps = "[14.913, 14.913 * exp (- (1 / 10)), 14.913 * exp (- (2 / 10)) :: real]"
  have "?ps ! 0 \<noteq> ?ps ! 1"
    by simp
  then have nz: "sum_list (map (\<lambda>x. (x - m) * (x - m)) ?ps) \<noteq> 0" for m
    by (intro total_variance_nonzero [of 0 _ 1]) simp_all
  have tv: "total_variance Fin (map Fin ?ps)
              = Fin (sum_list (map (\<lambda>x. (x - sum_list ?ps / real (length ?ps))
                                         * (x - sum_list ?ps / real (length ?ps))) ?ps))"
    by (rule total_variance_exact) simp
  have var: "total_variance Fin (map Fin ?ps) \<noteq> Fin 0 \<and> total_variance Fin (map Fin ?ps) \<noteq> NaN"
    unfolding tv using nz [of "sum_list ?ps / real (length ?ps)"] by simp
  show ?thesis
    using validate_model_round_trip [OF scenario_predictions_3_Fin, of Fin] scenario_predictions_3_Fin var
    by simp
qed

section \<open>Monotonicity of the PESTEL operator\<close>

lemma np_le_not_less: "np_le x y \<Longrightarrow> \<not> np_less y x"
  by (cases x; cases y) simp_all

lemma np_add_mono_right: "\<not> np_less y x \<Longrightarrow> \<not> np_less (np_add z y) (np_add z x)"
  by (cases x; cases y; cases z) simp_all

lemma np_add_mono_left: "\<not> np_less y x \<Longrightarrow> \<not> np_less (np_add y z) (np_add x z)"
  by (cases x; cases y; cases z) simp_all

lemma np_mul_mono:
  "np_le (Fin 0) c \<Longrightarrow> np_le x y \<Longrightarrow> \<not> np_less (np_mul c y) (np_mul c x)"
  by (cases c; cases x; cases y)
    (auto simp add: inf_signed_def not_less mult_left_mono split: if_splits)

lemma foldl_np_add_mono:
  "\<not> np_less a' a \<Longrightarrow> \<not> np_less (foldl np_add a' ts) (foldl np_add a ts)"
proof (induction ts arbitrary: a a')
  case Nil
  then show ?case by simp
next
  case (Cons t ts)
  have "\<not> np_less (np_add a' t) (np_add a t)"
    using Cons.prems by (rule np_add_mono_left)
  then show ?case using Cons.IH by simp
qed

lemma foldl_np_add_update:
  "i < length ts \<Longrightarrow> \<not> np_less t' (ts ! i) \<Longrightarrow>
     \<not> np_less (foldl np_add a (ts[i := t'])) (foldl np_add a ts)"
proof (induction ts arbitrary: i a)
  case Nil
  then show ?case by simp
next
  case (Cons t ts)
  show ?case
  proof (cases i)
    case 0
    have "\<not> np_less (np_add a t') (np_add a t)"
      using Cons.prems(2) 0 by (simp add: np_add_mono_right)
    then show ?thesis
      using 0 by (simp add: foldl_np_add_mono)
  next
    case (Suc k)
    then show ?thesis
      using Cons.prems Cons.IH [of k "np_add a t"] by simp
  qed
qed

lemma sequence_map_Inr:
  "(\<And>x. x \<in> set xs \<Longrightarrow> f x = Inr (g x)) \<Longrightarrow> sequence (map f xs) = Inr (map g xs)"
  by (induction xs) simp_all

lemma pestel_value:
  assumes "pestel (framework_data self) = Some (factors, weights, probabilities, impacts)"
    and "length weights = length factors" and "length probabilities = length factors"
    and "length impacts = length factors"
  shows "pestel_operator self =
           Inr (np_sum (map (\<lambda>k. np_mul (np_mul (weights ! k) (probabilities ! k)) (impacts ! k))
                            [0..<length factors]))"
proof -
  have "sequence (map (pestel_term weights probabilities impacts) [0..<length factors])
          = Inr (map (\<lambda>k. np_mul (np_mul (weights ! k) (probabilities ! k)) (impacts ! k))
                     [0..<length factors])"
    by (rule sequence_map_Inr) (simp add: pestel_term_def assms(2-4))
  then show ?thesis
    using assms(1) by (simp add: pestel_operator_def)
qed

lemma pestel_terms_update:
  assumes "i < n"
  shows "map (\<lambda>k. np_mul (c k) (impacts[i := v] ! k)) [0..<n]
           = (map (\<lambda>k. np_mul (c k) (impacts ! k)) [0..<n])[i := np_mul (c i) (impacts[i := v] ! i)]"
  using assms by (intro nth_equalityI) (simp_all add: nth_list_update)

text \<open>
  Claim C9. For a stored PESTEL input set whose four arrays have one length, an index
  \<open>i\<close> with \<open>weights[i] * probabilities[i] \<ge> 0\<close> and a value \<open>v \<ge> impacts[i]\<close>, the
  operator returns on both input sets, and its value with \<open>impacts[i]\<close> replaced by \<open>v\<close>
  is not less than its value before. The comparisons are IEEE comparisons, so the
  statement covers non-finite entries as well.
\<close>

theorem pestel_operator_monotone_in_impact:
  assumes "pestel (framework_data self) = Some (factors, weights, probabilities, impacts)"
    and "length weights = length factors" and "length probabilities = length factors"
    and "length impacts = length factors" and "i < length factors"
    and "np_le (Fin 0) (np_mul (weights ! i) (probabilities ! i))"
    and "np_le (impacts ! i) v"
  shows "\<exists>x y. pestel_operator self = Inr x
           \<and> pestel_operator (set_pestel_data self factors weights probabilities (impacts[i := v])) = Inr y
           \<and> \<not> np_less y x"
proof -
  let ?c = "\<lambda>k. np_mul (weights ! k) (probabilities ! k)"
  let ?ts = "map (\<lambda>k. np_mul (?c k) (impacts ! k)) [0..<length factors]"
  have old: "pestel_operator self = Inr (np_sum ?ts)"
    using pestel_value [OF assms(1-4)] .
  have "pestel_operator (set_pestel_data self factors weights probabilities (impacts[i := v]))
          = Inr (np_sum (map (\<lambda>k. np_mul (?c k) (impacts[i := v] ! k)) [0..<length factors]))"
    by (rule pestel_value) (simp_all add: set_pestel_data_def assms(2-4))
  then have new: "pestel_operator (set_pestel_data self factors weights probabilities (impacts[i := v]))
          = Inr (np_sum (?ts[i := np_mul (?c i) v]))"
    using assms(4,5) by (simp add: pestel_terms_update [OF assms(5)])
  have "\<not> np_less (np_mul (?c i) v) (?ts ! i)"
    using assms(5) np_mul_mono [OF assms(6,7)] by simp
  then have "\<not> np_less (np_sum (?ts[i := np_mul (?c i) v])) (np_sum ?ts)"
    unfolding np_sum_def using assms(5) by (intro foldl_np_add_update) simp_all
  then show ?thesis
    using old new by blast
qed

lemma scenario_pestel_data:
  "pestel (framework_data (scenario T)) = Some ([''A'', ''B''], [Fin 0.6, Fin 0.4], [Fin 0.5, Fin 0.5], [Fin 10, Fin 20])"
  by (simp add: scenario_def setters init_def)

theorem pestel_operator_monotone_in_impact_witness:
  "pestel (framework_data (scenario 3)) = Some ([''A'', ''B''], [Fin 0.6, Fin 0.4], [Fin 0.5, Fin 0.5], [Fin 10, Fin 20])
   \<and> (1::nat) < length [''A'', ''B'']
   \<and> np_le (Fin 0) (np_mul ([Fin 0.6, Fin 0.4] ! 1) ([Fin 0.5, Fin 0.5] ! 1))
   \<and> np_le ([Fin 10, Fin 20] ! 1) (Fin 30)
   \<and> pestel_operator (scenario 3) = Inr (Fin 7)
   \<and> pestel_operator (set_pestel_data (scenario 3) [''A'', ''B''] [Fin 0.6, Fin 0.4] [Fin 0.5, Fin 0.5] [Fin 10, Fin 30]) = Inr (Fin 9)
   \<and> \<not> np_less (Fin 9) (Fin 7)"
  using pestel_operator_monotone_in_impact [OF scenario_pestel_data, of 1 "Fin 30" 3]
  by (simp add: scenario_pestel_data scenario_pestel pestel_operator_def pestel_term_def
      set_pestel_data_def np_sum_def upt_rec)

section \<open>The optimizer\<close>

lemma np_neg_neg: "np_neg (np_neg y) = y"
  by (cases y) simp_all

lemma np_le_self: "np_le lo hi \<Longrightarrow> np_le lo lo"
  by (cases lo; cases hi) simp_all

lemma in_bounds_replicate:
  "in_bounds (replicate n (lo, hi)) xs
     \<longleftrightarrow> length xs = n \<and> list_all (\<lambda>e. np_le lo e \<and> np_le e hi) xs"
  by (auto simp add: in_bounds_def list_all2_conv_all_nth list_all_length)

lemma initial_guess_uniform:
  "map (\<lambda>one. np_mul one (Fin 0.5)) (replicate n (Fin 1)) = replicate n (Fin 0.5)"
  by simp

lemma objective_value:
  assumes "five_forces (framework_data self) = Some (forces, W)"
  shows "fst (objective self d) =
           (case sequence (map (unified_hyperfunctional_equation
                    (self\<lparr>framework_data := (framework_data self)\<lparr>five_forces := Some (d, W)\<rparr>\<rparr>))
                  (py_range (time_horizon self))) of
              Inl e \<Rightarrow> Inl e
            | Inr vals \<Rightarrow> Inr (np_neg (np_sum vals)))"
  using assms by (simp add: objective_def Let_def split: sum.splits)

text \<open>
  Claim C7. With the Five Forces input set stored, \<open>optimize_strategy\<close> calls the solver
  on the objective with the uniform start vector 0.5 of length M and the bounds (0, 1)
  for each of the M entries, and returns the solver's vector with the negation of the
  value it reports. For a solver that keeps its result within the bounds it is given and
  reports the objective at the vector it returns, the returned vector has length M and
  every element in the closed interval from 0 to 1, and the returned scalar is the sum
  over the horizon of the unified equation with the returned vector as the stored forces.
\<close>

theorem optimize_strategy_feasible:
  assumes "honours_bounds minimize" and "reports_objective minimize"
    and "five_forces (framework_data self) = Some (forces, W)"
    and "optimize_strategy minimize self = (Inr (xs, v), self')"
  shows "optimize_strategy minimize self =
           (case minimize objective (replicate (length forces) (Fin 0.5))
                   (replicate (length forces) (Fin 0, Fin 1)) self of
              (Inl e, s) \<Rightarrow> (Inl e, s)
            | (Inr res, s) \<Rightarrow> (Inr (result_x res, np_neg (result_fun res)), s))
       \<and> length xs = length forces
       \<and> list_all (\<lambda>e. np_le (Fin 0) e \<and> np_le e (Fin 1)) xs
       \<and> (\<exists>vals. sequence (map (unified_hyperfunctional_equation
                      (self\<lparr>framework_data := (framework_data self)\<lparr>five_forces := Some (xs, W)\<rparr>\<rparr>))
                    (py_range (time_horizon self))) = Inr vals
                 \<and> v = np_sum vals)"
proof -
  have call: "optimize_strategy minimize self =
           (case minimize objective (replicate (length forces) (Fin 0.5))
                   (replicate (length forces) (Fin 0, Fin 1)) self of
              (Inl e, s) \<Rightarrow> (Inl e, s)
            | (Inr res, s) \<Rightarrow> (Inr (result_x res, np_neg (result_fun res)), s))"
    using assms(3) by (simp add: optimize_strategy_def)
  obtain res where res: "minimize objective (replicate (length forces) (Fin 0.5))
                   (replicate (length forces) (Fin 0, Fin 1)) self = (Inr res, self')"
    and xs: "xs = result_x res" and v: "v = np_neg (result_fun res)"
    using assms(4) unfolding call by (auto split: prod.splits sum.splits)
  have "in_bounds (replicate (length forces) (Fin 0, Fin 1)) xs"
    using assms(1) res xs unfolding honours_bounds_def by blast
  then have box: "length xs = length forces \<and> list_all (\<lambda>e. np_le (Fin 0) e \<and> np_le e (Fin 1)) xs"
    by (simp only: in_bounds_replicate)
  have "fst (objective self xs) = Inr (result_fun res)"
    using assms(2) res xs unfolding reports_objective_def by blast
  then obtain vals where
    "sequence (map (unified_hyperfunctional_equation
                      (self\<lparr>framework_data := (framework_data self)\<lparr>five_forces := Some (xs, W)\<rparr>\<rparr>))
                    (py_range (time_horizon self))) = Inr vals"
    and "result_fun res = np_neg (np_sum vals)"
    unfolding objective_value [OF assms(3)] by (auto split: sum.splits)
  then show ?thesis
    using call box v by (simp add: np_neg_neg)
qed

lemma clip_in_bounds:
  "length bounds = length x0 \<Longrightarrow> list_all (\<lambda>(lo, hi). np_le lo hi) bounds
     \<Longrightarrow> in_bounds bounds (map2 clip bounds x0)"
proof (induction bounds arbitrary: x0)
  case Nil
  then show ?case by (simp add: in_bounds_def)
next
  case (Cons b bounds)
  then obtain y ys where x0: "x0 = y # ys"
    by (cases x0) simp_all
  obtain lo hi where b: "b = (lo, hi)"
    by (cases b)
  have "np_le lo (clip b y) \<and> np_le (clip b y) hi"
    using Cons.prems(2) b np_le_self [of lo hi] by (simp add: clip_def)
  moreover have "in_bounds bounds (map2 clip bounds ys)"
    using Cons.IH [of ys] Cons.prems x0 by simp
  ultimately show ?case
    using x0 b by (simp add: in_bounds_def)
qed

lemma start_only_honours_bounds: "honours_bounds start_only"
  unfolding honours_bounds_def
  by (auto simp add: start_only_def clip_in_bounds split: if_splits prod.splits sum.splits)

lemma start_only_reports_objective: "reports_objective start_only"
  unfolding reports_objective_def
  by (auto simp add: start_only_def split: if_splits prod.splits sum.splits)

lemma scenario_candidate:
  "objective (scenario 3) [Fin 0.5, Fin 0.5] =
     (Inr (Fin (- 13.988 - 13.988 * exp (- (1 / 10)) - 13.988 * exp (- (1 / 5)))),
      set_five_forces_data (scenario 3) [Fin 0.5, Fin 0.5] [[Fin 0, Fin 1], [Fin 1, Fin 0]])"
  by (simp add: objective_def unified_hyperfunctional_equation_def scenario_def setters init_def
      pestel_operator_def pestel_term_def five_forces_operator_def five_forces_term_def index2_def
      swot_operator_def bcg_operator_def ansoff_operator_def blue_ocean_operator_def broadcast2_def
      np_mean_def np_sum_def np_sub_def strategic_state_def coupling_effect_def coupling_get_def
      np_index_def py_range_def upt_rec numeral_3_eq_3)

lemma scenario_optimize:
  "optimize_strategy start_only (scenario 3) =
     (Inr ([Fin 0.5, Fin 0.5],
           Fin (13.988 + 13.988 * exp (- (1 / 10)) + 13.988 * exp (- (1 / 5)))),
      set_five_forces_data (scenario 3) [Fin 0.5, Fin 0.5] [[Fin 0, Fin 1], [Fin 1, Fin 0]])"
  using scenario_candidate
  by (simp add: optimize_strategy_def scenario_five_forces_data start_only_def clip_def Let_def
      algebra_simps)

theorem optimize_strategy_feasible_witness:
  "honours_bounds start_only \<and> reports_objective start_only
   \<and> five_forces (framework_data (scenario 3))
        = Some ([Fin 0.2, Fin 0.3], [[Fin 0, Fin 1], [Fin 1, Fin 0]])
   \<and> optimize_strategy start_only (scenario 3) =
       (Inr ([Fin 0.5, Fin 0.5],
             Fin (13.988 + 13.988 * exp (- (1 / 10)) + 13.988 * exp (- (1 / 5)))),
        set_five_forces_data (scenario 3) [Fin 0.5, Fin 0.5] [[Fin 0, Fin 1], [Fin 1, Fin 0]])
   \<and> length [Fin 0.5, Fin 0.5 :: npfloat] = length [Fin 0.2, Fin 0.3 :: npfloat]
   \<and> list_all (\<lambda>e. np_le (Fin 0) e \<and> np_le e (Fin 1)) [Fin 0.5, Fin 0.5]"
  using optimize_strategy_feasible [OF start_only_honours_bounds start_only_reports_objective
      scenario_five_forces_data scenario_optimize]
    start_only_honours_bounds start_only_reports_objective scenario_five_forces_data
    scenario_optimize
  by simp

end
